theory Spec2Isabelle
  imports Complex_Main "HOL-Library.Char_ord" "HOL-Library.List_Lexorder"
begin

section \<open>JavaScript values, objects and strings\<close>

text \<open>
  The front end is JavaScript. A value is one of the kinds the workflow builder stores in a
  node: \<open>undefined\<close>, \<open>null\<close>, a boolean, a number (the code only produces
  integers and \<open>NaN\<close>, the result of \<open>parseInt\<close>), a string, a function (the
  \<open>onUpdate\<close> callback; closures are opaque), an array (the uploaded-files list) or a
  nested object, given by its own enumerable properties (an entry of that list).
\<close>

datatype jsval =
    JUndefined
  | JNull
  | JBool bool
  | JNum int
  | JNaN
  | JStr string
  | JFun
  | JArr "jsval list"
  | JObj "(string \<times> jsval) list"

text \<open>An object literal is a finite map from property names to values.\<close>

type_synonym jsobject = "string \<rightharpoonup> jsval"

text \<open>Truthiness, as \<open>||\<close>, \<open>!\<close> and \<open>if\<close> test it.\<close>

fun truthy :: "jsval \<Rightarrow> bool" where
  "truthy JUndefined = False"
| "truthy JNull = False"
| "truthy (JBool b) = b"
| "truthy (JNum n) = (n \<noteq> 0)"
| "truthy JNaN = False"
| "truthy (JStr s) = (s \<noteq> [])"
| "truthy JFun = True"
| "truthy (JArr xs) = True"
| "truthy (JObj ps) = True"

text \<open>\<open>a || b\<close>: the left operand when it is truthy, else the right one.\<close>

definition js_or :: "jsval \<Rightarrow> jsval \<Rightarrow> jsval" where
  "js_or a b = (if truthy a then a else b)"

text \<open>\<open>obj.key\<close> (and \<open>obj?.key\<close> on an object): a missing property reads \<open>undefined\<close>.\<close>

definition get_prop :: "jsobject \<Rightarrow> string \<Rightarrow> jsval" where
  "get_prop obj k = (case obj k of None \<Rightarrow> JUndefined | Some v \<Rightarrow> v)"

text \<open>
  \<open>obj[key]\<close> on an object literal with a key computed at run time: an own property, or
  else the property of that name inherited from \<open>Object.prototype\<close>. Its methods are
  functions, and \<open>__proto__\<close> reads the prototype object itself, which has no enumerable
  property. (The fixed names that \<open>get_prop\<close> is used with are not inherited ones.)
\<close>

definition object_prototype :: jsobject where
  "object_prototype =
     [''constructor'' \<mapsto> JFun,
      ''hasOwnProperty'' \<mapsto> JFun,
      ''isPrototypeOf'' \<mapsto> JFun,
      ''propertyIsEnumerable'' \<mapsto> JFun,
      ''toLocaleString'' \<mapsto> JFun,
      ''toString'' \<mapsto> JFun,
      ''valueOf'' \<mapsto> JFun,
      ''__defineGetter__'' \<mapsto> JFun,
      ''__defineSetter__'' \<mapsto> JFun,
      ''__lookupGetter__'' \<mapsto> JFun,
      ''__lookupSetter__'' \<mapsto> JFun,
      ''__proto__'' \<mapsto> JObj []]"

definition get_member :: "jsobject \<Rightarrow> string \<Rightarrow> jsval" where
  "get_member obj k = (case obj k of None \<Rightarrow> get_prop object_prototype k | Some v \<Rightarrow> v)"

text \<open>
  Strings are lists of 8-bit code units (the Latin-1 range of JavaScript's UTF-16 units).
  \<open>String.prototype.trim\<close> removes white space and line terminators from both ends; in this
  range these are TAB, LF, VT, FF, CR, SPACE and NBSP.
\<close>

definition is_space :: "char \<Rightarrow> bool" where
  "is_space c = ((of_char c :: nat) \<in> {9, 10, 11, 12, 13, 32, 160})"

definition trim :: "string \<Rightarrow> string" where
  "trim s = rev (dropWhile is_space (rev (dropWhile is_space s)))"


text \<open>
  \<open>JSON.stringify\<close>, read back by \<open>JSON.parse\<close>: a property whose value is
  \<open>undefined\<close> or a function is left out, \<open>NaN\<close> becomes \<open>null\<close>, and inside an
  array \<open>undefined\<close> and functions become \<open>null\<close> too; nested objects lose the same
  properties.
\<close>

fun json_value :: "jsval \<Rightarrow> jsval"
  and json_items :: "jsval list \<Rightarrow> jsval list"
  and json_fields :: "(string \<times> jsval) list \<Rightarrow> (string \<times> jsval) list" where
  "json_value JUndefined = JNull"
| "json_value JFun = JNull"
| "json_value JNaN = JNull"
| "json_value JNull = JNull"
| "json_value (JBool b) = JBool b"
| "json_value (JNum n) = JNum n"
| "json_value (JStr s) = JStr s"
| "json_value (JArr xs) = JArr (json_items xs)"
| "json_value (JObj ps) = JObj (json_fields ps)"
| "json_items [] = []"
| "json_items (v # vs) = json_value v # json_items vs"
| "json_fields [] = []"
| "json_fields (p # ps) =
     (if snd p = JUndefined \<or> snd p = JFun then json_fields ps
      else (fst p, json_value (snd p)) # json_fields ps)"

definition json_object :: "jsobject \<Rightarrow> jsobject" where
  "json_object obj =
     (\<lambda>k. case obj k of
            None \<Rightarrow> None
          | Some JUndefined \<Rightarrow> None
          | Some JFun \<Rightarrow> None
          | Some v \<Rightarrow> Some (json_value v))"

text \<open>A property of the serialised object read back: \<open>undefined\<close> when it was left out.\<close>

definition json_prop :: "jsval \<Rightarrow> jsval" where
  "json_prop v = (if v = JUndefined \<or> v = JFun then JUndefined else json_value v)"



section \<open>Nodes and edges of the canvas\<close>

text \<open>
  A node of the canvas, with the four properties the builder reads and writes:
  \<open>id\<close>, \<open>type\<close>, \<open>position\<close> and \<open>data\<close>. A position is a pair of
  coordinates which the code only copies.
\<close>

record node =
  nid :: string
  ntype :: jsval
  position :: "real \<times> real"
  ndata :: jsobject

text \<open>
  An edge of the canvas: \<open>onConnect\<close> stores the connection's \<open>source\<close>,
  \<open>target\<close> and handles together with the drawing style (of the style, the type and the
  animation flag are kept here; the arrow marker is always the same constant).
\<close>

record edge =
  eid :: string
  source :: string
  target :: string
  sourceHandle :: "string option"
  targetHandle :: "string option"
  etype :: "string option"
  animated :: bool


section \<open>utils/nodeFactory: createNode\<close>

definition nodeLabels :: jsobject where
  "nodeLabels =
     [''userQuery'' \<mapsto> JStr ''User Query'',
      ''knowledgeBase'' \<mapsto> JStr ''Knowledge Base'',
      ''llmEngine'' \<mapsto> JStr ''LLM Engine'',
      ''output'' \<mapsto> JStr ''Output'']"

definition nodeTypeMap :: jsobject where
  "nodeTypeMap =
     [''userQuery'' \<mapsto> JStr ''userQuery'',
      ''knowledgeBase'' \<mapsto> JStr ''knowledgeBase'',
      ''llmEngine'' \<mapsto> JStr ''llmEngine'',
      ''output'' \<mapsto> JStr ''output'']"

text \<open>
  \<open>createNode(type, position, onUpdateCallback)\<close>. The id comes from
  \<open>generateId()\<close>, which reads the clock and a random number: it is the parameter
  \<open>gid\<close>. The \<open>switch\<close> adds the default configuration of the two configurable kinds.
  The two lookup tables are read with the key \<open>type\<close>, so for a name that
  \<open>Object.prototype\<close> has (\<open>toString\<close>, say) the node's type and label are the
  inherited function.
\<close>

definition createNode :: "string \<Rightarrow> string \<Rightarrow> real \<times> real \<Rightarrow> jsval \<Rightarrow> node" where
  "createNode gid type pos onUpdateCallback =
     (let baseData =
            [''label'' \<mapsto> js_or (get_member nodeLabels type) (JStr type),
             ''type'' \<mapsto> JStr type,
             ''onUpdate'' \<mapsto> js_or onUpdateCallback JFun];
          data =
            (if type = ''knowledgeBase'' then
               baseData ++
                 [''knowledgeBaseId'' \<mapsto> JStr [],
                  ''embeddingModel'' \<mapsto> JStr ''gemini'',
                  ''topK'' \<mapsto> JNum 5]
             else if type = ''llmEngine'' then
               baseData ++
                 [''llmProvider'' \<mapsto> JStr ''gemini'',
                  ''model'' \<mapsto> JStr ''gpt-3.5-turbo'',
                  ''customPrompt'' \<mapsto> JStr [],
                  ''useWebSearch'' \<mapsto> JBool False,
                  ''webSearchProvider'' \<mapsto> JStr ''serpapi'']
             else baseData)
      in \<lparr>nid = gid,
          ntype = js_or (get_member nodeTypeMap type) (JStr type),
          position = pos,
          ndata = data\<rparr>)"


section \<open>Custom node components and the configuration panel\<close>

text \<open>
  \<open>LLMEngineNode\<close>: the provider the select shows, \<open>data.llmProvider || 'gemini'\<close>.
\<close>

definition LLMEngineNode_llmProvider :: "jsobject \<Rightarrow> jsval" where
  "LLMEngineNode_llmProvider data = js_or (get_prop data ''llmProvider'') (JStr ''gemini'')"

text \<open>
  \<open>KnowledgeBaseNode\<close>, the Top K input: it shows \<open>data.topK || 5\<close>, and its
  \<open>onChange\<close> hands \<open>{ topK: parseInt(e.target.value) || 5 }\<close> to \<open>data.onUpdate\<close>.
  The argument \<open>parsed\<close> is the value of \<open>parseInt(e.target.value)\<close>: an integer or
  \<open>NaN\<close>. The attributes \<open>min="1"\<close> and \<open>max="20"\<close> of the input element are
  markup; no statement of the handler reads them.
\<close>

definition KnowledgeBaseNode_topK :: "jsobject \<Rightarrow> jsval" where
  "KnowledgeBaseNode_topK data = js_or (get_prop data ''topK'') (JNum 5)"

definition KnowledgeBaseNode_topK_onChange :: "jsval \<Rightarrow> jsobject" where
  "KnowledgeBaseNode_topK_onChange parsed = [''topK'' \<mapsto> js_or parsed (JNum 5)]"

text \<open>
  \<open>ComponentConfigPanel.handleChange(key, value)\<close>: the new configuration
  \<open>{ ...config, [key]: value }\<close>, which is stored in the panel and handed to
  \<open>onUpdate(node.id, newConfig)\<close>. For Top K the value is \<open>parseInt(e.target.value)\<close>.
\<close>

definition handleChange :: "jsobject \<Rightarrow> string \<Rightarrow> jsval \<Rightarrow> jsobject" where
  "handleChange config key v = config(key \<mapsto> v)"

text \<open>
  \<open>WorkflowBuilder.handleNodeUpdate(nodeId, data)\<close>: the node with that id gets
  \<open>{ ...node.data, ...data }\<close>; this is also what the \<open>onUpdate\<close> callback of a node does.
\<close>

definition handleNodeUpdate :: "node list \<Rightarrow> string \<Rightarrow> jsobject \<Rightarrow> node list" where
  "handleNodeUpdate nds nodeId data =
     map (\<lambda>n. if nid n = nodeId then n\<lparr>ndata := ndata n ++ data\<rparr> else n) nds"

text \<open>
  The objects the four custom node components hand to \<open>data.onUpdate\<close>, one per input
  of \<open>UserQueryNode\<close> and \<open>OutputNode\<close> (the name), \<open>KnowledgeBaseNode\<close> (id, embedding
  model, Top K with the result of \<open>parseInt\<close>, \<open>None\<close> for \<open>NaN\<close>, and the new list of
  uploaded files) and \<open>LLMEngineNode\<close>. No component writes the \<open>type\<close> property.
\<close>

datatype node_update =
    UpdName string
  | UpdKnowledgeBaseId string
  | UpdEmbeddingModel string
  | UpdTopK "int option"
  | UpdUploadedFiles "jsval list"
  | UpdLlmProvider string
  | UpdModel string
  | UpdCustomPrompt string
  | UpdUseWebSearch bool
  | UpdWebSearchProvider string

fun update_data :: "node_update \<Rightarrow> jsobject" where
  "update_data (UpdName v) = [''name'' \<mapsto> JStr v]"
| "update_data (UpdKnowledgeBaseId v) = [''knowledgeBaseId'' \<mapsto> JStr v]"
| "update_data (UpdEmbeddingModel v) = [''embeddingModel'' \<mapsto> JStr v]"
| "update_data (UpdTopK p) =
     KnowledgeBaseNode_topK_onChange (case p of None \<Rightarrow> JNaN | Some v \<Rightarrow> JNum v)"
| "update_data (UpdUploadedFiles fs) = [''uploadedFiles'' \<mapsto> JArr fs]"
| "update_data (UpdLlmProvider v) = [''llmProvider'' \<mapsto> JStr v]"
| "update_data (UpdModel v) = [''model'' \<mapsto> JStr v]"
| "update_data (UpdCustomPrompt v) = [''customPrompt'' \<mapsto> JStr v]"
| "update_data (UpdUseWebSearch v) = [''useWebSearch'' \<mapsto> JBool v]"
| "update_data (UpdWebSearchProvider v) = [''webSearchProvider'' \<mapsto> JStr v]"


text \<open>
  \<open>WorkflowBuilder.onDrop\<close> on the node list: nothing without a type in the drag data;
  otherwise the new node, with its \<open>onUpdate\<close> callback set, is appended.
  \<open>onNodesDelete\<close> removes the deleted nodes.
\<close>

definition onDrop :: "string \<Rightarrow> string \<Rightarrow> real \<times> real \<Rightarrow> node list \<Rightarrow> node list" where
  "onDrop gid type pos nds =
     (if type = [] then nds
      else
        let newNode = createNode gid type pos JNull
        in nds @ [newNode\<lparr>ndata := (ndata newNode)(''onUpdate'' \<mapsto> JFun)\<rparr>])"



section \<open>WorkflowBuilder: saving a workflow and loading one for editing\<close>

text \<open>
  The body of the save request, \<open>workflowData\<close>, and the workflow object the server
  answers with (and which \<open>HomePage\<close> fetches for editing). The server is not part of
  these sources: every property of the stored object may be missing, as the optional
  chaining and the \<open>|| ''\<close> defaults of the loading code allow.
\<close>

record workflowData =
  wd_name :: string
  wd_description :: string
  wd_nodes :: "node list"
  wd_edges :: "edge list"

record workflow =
  wf_id :: string
  wf_name :: "string option"
  wf_description :: "string option"
  wf_nodes :: "node list option"
  wf_edges :: "edge list option"

text \<open>The state of the builder component (its \<open>useState\<close> cells and the prop).\<close>

record builder =
  nodes :: "node list"
  edges :: "edge list"
  workflowName :: string
  workflowDescription :: string
  editingWorkflow :: "workflow option"

text \<open>
  What a handler does besides changing state: toasts, the HTTP request it sends (method,
  URL, body) and the call of the parent's \<open>onWorkflowReady\<close>.
\<close>

datatype builder_effect =
    ToastError string
  | ToastSuccess string
  | Fetch string string workflowData
  | OnWorkflowReady workflow

text \<open>The three outcomes of the save request: \<open>response.ok\<close> with the saved workflow,
  a response that is not ok with its optional \<open>detail\<close>, or an exception with its message.\<close>

datatype save_reply =
    SaveOk workflow
  | SaveRefused "string option"
  | SaveThrows string

text \<open>
  \<open>n.data?.type === k || n.type === k\<close>, the test under each \<open>nodes.some\<close> of the
  validation.
\<close>

definition hasType :: "string \<Rightarrow> node \<Rightarrow> bool" where
  "hasType k n = (get_prop (ndata n) ''type'' = JStr k \<or> ntype n = JStr k)"

definition hasUserQuery :: "node list \<Rightarrow> bool" where
  "hasUserQuery nds = list_ex (hasType ''userQuery'') nds"

definition hasLLM :: "node list \<Rightarrow> bool" where
  "hasLLM nds = list_ex (hasType ''llmEngine'') nds"

definition hasOutput :: "node list \<Rightarrow> bool" where
  "hasOutput nds = list_ex (hasType ''output'') nds"

text \<open>
  The checks at the head of \<open>handleSaveWorkflow\<close>: the message of the error toast
  after which the handler returns, or \<open>None\<close> when the workflow passes both checks.
\<close>

definition save_validation :: "builder \<Rightarrow> string option" where
  "save_validation b =
     (if trim (workflowName b) = [] then Some ''Please enter a workflow name''
      else if \<not> hasUserQuery (nodes b) \<or> \<not> hasLLM (nodes b) \<or> \<not> hasOutput (nodes b)
        then Some ''Workflow must contain User Query, LLM Engine, and Output components''
      else None)"

text \<open>The two \<open>map\<close>s that build the request body.\<close>

definition serialize_node :: "node \<Rightarrow> node" where
  "serialize_node n =
     \<lparr>nid = nid n,
      ntype = js_or (get_prop (ndata n) ''type'') (ntype n),
      position = position n,
      ndata = ndata n\<rparr>"

definition serialize_edge :: "edge \<Rightarrow> edge" where
  "serialize_edge e =
     \<lparr>eid = eid e, source = source e, target = target e,
      sourceHandle = None, targetHandle = None, etype = None, animated = False\<rparr>"

definition serialize :: "builder \<Rightarrow> workflowData" where
  "serialize b =
     \<lparr>wd_name = workflowName b,
      wd_description = workflowDescription b,
      wd_nodes = map serialize_node (nodes b),
      wd_edges = map serialize_edge (edges b)\<rparr>"

text \<open>
  \<open>JSON.stringify(workflowData)\<close>, the body of the request, given as the object a
  server reads back from the text.
\<close>

definition JSON_stringify :: "workflowData \<Rightarrow> workflowData" where
  "JSON_stringify d =
     d\<lparr>wd_nodes :=
         map (\<lambda>n. n\<lparr>ntype := json_prop (ntype n), ndata := json_object (ndata n)\<rparr>)
           (wd_nodes d)\<rparr>"

definition save_url :: "builder \<Rightarrow> string" where
  "save_url b =
     (case editingWorkflow b of
        Some w \<Rightarrow> ''http://localhost:8000/api/workflows/'' @ wf_id w
      | None \<Rightarrow> ''http://localhost:8000/api/workflows/'')"

definition save_method :: "builder \<Rightarrow> string" where
  "save_method b = (case editingWorkflow b of Some w \<Rightarrow> ''PUT'' | None \<Rightarrow> ''POST'')"

text \<open>
  \<open>handleSaveWorkflow\<close>. It changes no state of the builder; \<open>fetch\<close> is the server's
  answer to the request. A workflow is accepted for chatting exactly when the handler
  reaches \<open>onWorkflowReady\<close>.
\<close>

definition handleSaveWorkflow ::
  "builder \<Rightarrow> (string \<Rightarrow> string \<Rightarrow> workflowData \<Rightarrow> save_reply) \<Rightarrow> builder_effect list" where
  "handleSaveWorkflow b fetch =
     (case save_validation b of
        Some msg \<Rightarrow> [ToastError msg]
      | None \<Rightarrow>
          Fetch (save_method b) (save_url b) (JSON_stringify (serialize b)) #
            (case fetch (save_method b) (save_url b) (JSON_stringify (serialize b)) of
               SaveOk w \<Rightarrow>
                 [ToastSuccess
                    (if editingWorkflow b \<noteq> None then ''Workflow updated successfully!''
                     else ''Workflow saved successfully!''),
                  OnWorkflowReady w]
             | SaveRefused detail \<Rightarrow>
                 [ToastError
                    (case detail of
                       Some d \<Rightarrow> if d \<noteq> [] then d else ''Failed to save workflow''
                     | None \<Rightarrow> ''Failed to save workflow'')]
             | SaveThrows m \<Rightarrow> [ToastError (''Error saving workflow: '' @ m)]))"





text \<open>
  A server that stores the request body as it is and returns it under the id \<open>i\<close>
  (the workflow store is an external collaborator of these sources); the round trip of a
  workflow is saving it to such a server and loading the answer for editing.
\<close>

definition stored :: "string \<Rightarrow> workflowData \<Rightarrow> workflow" where
  "stored i d =
     \<lparr>wf_id = i, wf_name = Some (wd_name d), wf_description = Some (wd_description d),
      wf_nodes = Some (wd_nodes d), wf_edges = Some (wd_edges d)\<rparr>"

definition server_stores :: "string \<Rightarrow> string \<Rightarrow> string \<Rightarrow> workflowData \<Rightarrow> save_reply" where
  "server_stores i method url body = SaveOk (stored i body)"


text \<open>
  Notions the statements below use: the number of nodes of a kind (a node counts for a
  kind when the validation's own test holds of it) and the directed graph of an edge list.
\<close>

definition count_kind :: "string \<Rightarrow> node list \<Rightarrow> nat" where
  "count_kind k nds = length (filter (hasType k) nds)"

definition edge_rel :: "edge list \<Rightarrow> (string \<times> string) set" where
  "edge_rel es = set (map (\<lambda>e. (source e, target e)) es)"



section \<open>ChatInterface\<close>

record message =
  role :: string
  content :: string

record session =
  session_id :: string
  created_at :: string

record chat =
  messages :: "message list"
  input :: string
  loading :: bool
  sessionId :: "string option"
  chatSessions :: "session list"

record query_request =
  query :: string
  workflow_id :: string
  req_session_id :: "string option"

text \<open>The answer to the query request: \<open>session_id\<close> and \<open>response\<close> of a
  successful response, or a failure with the optional \<open>detail\<close> of the error response.\<close>

datatype query_reply =
    QueryOk string string
  | QueryFails "string option"

datatype chat_effect =
    PostQuery query_request
  | GetSessions string
  | GetHistory string
  | DeleteSession string
  | ChatToastError string
  | ChatToastSuccess string

text \<open>
  The effect on \<open>sessionId\<close>: whenever a handler changes the session id to a truthy
  value, \<open>loadChatHistory\<close> requests that session's history. When the history arrives it
  replaces the message list; when the request fails the list stays.
\<close>

definition sessionId_effect :: "string option \<Rightarrow> string option \<Rightarrow> chat_effect list" where
  "sessionId_effect old new =
     (case new of
        Some sid \<Rightarrow> if old \<noteq> new \<and> sid \<noteq> [] then [GetHistory sid] else []
      | None \<Rightarrow> [])"

definition loadChatHistory_reply :: "message list option \<Rightarrow> chat \<Rightarrow> chat" where
  "loadChatHistory_reply reply st =
     (case reply of Some history \<Rightarrow> st\<lparr>messages := history\<rparr> | None \<Rightarrow> st)"

text \<open>\<open>handleSessionClick\<close> and \<open>handleNewChat\<close>, the two sidebar handlers; neither
  looks at \<open>loading\<close>.\<close>

definition handleSessionClick :: "session \<Rightarrow> chat \<Rightarrow> chat \<times> chat_effect list" where
  "handleSessionClick s st =
     (st\<lparr>sessionId := Some (session_id s)\<rparr>,
      sessionId_effect (sessionId st) (Some (session_id s)))"

definition handleNewChat :: "chat \<Rightarrow> chat" where
  "handleNewChat st = st\<lparr>sessionId := None, messages := []\<rparr>"

text \<open>
  \<open>handleSend\<close>; \<open>wid\<close> is \<open>workflow.id\<close> and \<open>post\<close> the server's answer to the
  request. The handler awaits the answer: the request is built from the state at submit,
  while the state updates after the \<open>await\<close> are functions of the state at that later
  time. \<open>during\<close> is what the other handlers (the sidebar, an arriving history) have made
  of the state left by the submit when the answer arrives; it is the identity when none
  ran. \<open>prev.slice(0, -1)\<close> is \<open>butlast\<close>.
\<close>

definition handleSend ::
  "string \<Rightarrow> chat \<Rightarrow> (query_request \<Rightarrow> query_reply) \<Rightarrow> (chat \<Rightarrow> chat)
     \<Rightarrow> chat \<times> chat_effect list" where
  "handleSend wid st post during =
     (if trim (input st) = [] \<or> loading st then (st, [])
      else
        let userMessage = trim (input st);
            st1 = st\<lparr>input := [],
                     messages := messages st @ [\<lparr>role = ''user'', content = userMessage\<rparr>],
                     loading := True\<rparr>;
            req = \<lparr>query = userMessage, workflow_id = wid, req_session_id = sessionId st\<rparr>;
            st2 = during st1
        in case post req of
             QueryOk sid resp \<Rightarrow>
               (st2\<lparr>sessionId := Some sid,
                    messages := messages st2 @ [\<lparr>role = ''assistant'', content = resp\<rparr>],
                    loading := False\<rparr>,
                [PostQuery req, GetSessions wid] @ sessionId_effect (sessionId st2) (Some sid))
           | QueryFails detail \<Rightarrow>
               (st2\<lparr>messages := butlast (messages st2), loading := False\<rparr>,
                [PostQuery req,
                 ChatToastError
                   (case detail of
                      Some d \<Rightarrow> if d \<noteq> [] then d else ''Error processing query''
                    | None \<Rightarrow> ''Error processing query'')]))"

text \<open>
  \<open>handleDeleteSession\<close>; \<open>delete_ok\<close> tells whether the DELETE request for a session
  id succeeds (\<open>axios.delete\<close> throws otherwise).
\<close>

definition handleDeleteSession ::
  "chat \<Rightarrow> session \<Rightarrow> (string \<Rightarrow> bool) \<Rightarrow> chat \<times> chat_effect list" where
  "handleDeleteSession st s delete_ok =
     (if delete_ok (session_id s) then
        let st1 = st\<lparr>chatSessions :=
                       filter (\<lambda>x. session_id x \<noteq> session_id s) (chatSessions st)\<rparr>;
            st2 = (if sessionId st = Some (session_id s)
                   then st1\<lparr>sessionId := None, messages := []\<rparr> else st1)
        in (st2, [DeleteSession (session_id s), ChatToastSuccess ''Chat session deleted''])
      else (st, [DeleteSession (session_id s), ChatToastError ''Error deleting chat session'']))"


section \<open>GraphCompiler\<close>

text \<open>
  The execution engine is not among these sources (they hold the front end and the
  documentation); its compiler is modelled from the specification's design of it.
\<close>

datatype structural_error = CycleDetected

text \<open>Modelled from the spec: the in-degree count of a node (section 4.2), taken among the
  edges still in the graph; the counting code is not in these sources.\<close>

definition in_degree :: "('a \<times> 'a) list \<Rightarrow> 'a \<Rightarrow> nat" where
  "in_degree es v = length (filter (\<lambda>e. snd e = v) es)"

text \<open>Modelled from the spec: the tie-break by ascending node id (section 4.2), the smallest
  element of the non-empty list \<open>r # rs\<close>; its code is not in these sources.\<close>

definition least :: "'a::linorder \<Rightarrow> 'a list \<Rightarrow> 'a" where
  "least r rs = fold min rs r"

lemma least_Min: "least r rs = Min (set (r # rs))"
  by (simp only: least_def Min.set_eq_fold)

lemma least_in: "least r rs \<in> set (r # rs)"
  unfolding least_Min by (rule Min_in) auto

lemma least_le: "x \<in> set (r # rs) \<Longrightarrow> least r rs \<le> x"
  unfolding least_Min by (rule Min_le) auto

text \<open>
  Modelled from the spec: the GraphCompiler's ordering loop (section 4.2), whose code is
  not in these sources. Kahn's algorithm over in-degree counts: while nodes remain, the
  nodes of in-degree zero are collected; when there is none the graph has a cycle and the
  compiler fails with the structural error; otherwise the one with the smallest id (the
  tie-break rule) is emitted next and leaves the graph together with its outgoing edges.
\<close>

function kahn :: "'a::linorder list \<Rightarrow> ('a \<times> 'a) list \<Rightarrow> structural_error + 'a list" where
  "kahn ns es =
     (if ns = [] then Inr []
      else case filter (\<lambda>v. in_degree es v = 0) ns of
             [] \<Rightarrow> Inl CycleDetected
           | r # rs \<Rightarrow>
               (case kahn (remove1 (least r rs) ns) (filter (\<lambda>e. fst e \<noteq> least r rs) es) of
                  Inl err \<Rightarrow> Inl err
                | Inr order \<Rightarrow> Inr (least r rs # order)))"
  by pat_completeness auto
termination
proof (relation "measure (\<lambda>(ns, es). length ns)")
  show "wf (measure (\<lambda>(ns, es). length ns))" by simp
next
  fix ns :: "'a list" and es :: "('a \<times> 'a) list" and r rs
  assume "ns \<noteq> []" and f: "filter (\<lambda>v. in_degree es v = 0) ns = r # rs"
  have "least r rs \<in> set (filter (\<lambda>v. in_degree es v = 0) ns)"
    unfolding f by (rule least_in)
  then have "least r rs \<in> set ns" by simp
  then show "((remove1 (least r rs) ns, filter (\<lambda>e. fst e \<noteq> least r rs) es), (ns, es))
        \<in> measure (\<lambda>(ns, es). length ns)"
    by (simp add: length_remove1) (cases ns; simp)
qed

declare kahn.simps [simp del]

text \<open>
  Modelled from the spec: \<open>compile(workflow) -> ExecutionPlan\<close> (section 4.2), whose code
  is not in these sources. The plan is the node sequence plus, for each node, its
  predecessor node ids; node ids are ordered as strings, code unit by code unit.
\<close>

record execution_plan =
  plan_order :: "string list"
  plan_preds :: "(string \<times> string list) list"

definition compile :: "workflowData \<Rightarrow> structural_error + execution_plan" where
  "compile w =
     (case kahn (map nid (wd_nodes w)) (map (\<lambda>e. (source e, target e)) (wd_edges w)) of
        Inl err \<Rightarrow> Inl err
      | Inr order \<Rightarrow>
          Inr \<lparr>plan_order = order,
               plan_preds =
                 map (\<lambda>v. (v, map source (filter (\<lambda>e. target e = v) (wd_edges w)))) order\<rparr>)"

text \<open>The position of the first occurrence of an element in a list.\<close>

fun index_of :: "'a \<Rightarrow> 'a list \<Rightarrow> nat" where
  "index_of x [] = 0"
| "index_of x (y # ys) = (if x = y then 0 else Suc (index_of x ys))"


section \<open>The workflows the builder holds\<close>







section \<open>Example workflows and chat states\<close>

text \<open>An edge as \<open>onConnect\<close> adds it between two nodes.\<close>

definition connect :: "string \<Rightarrow> string \<Rightarrow> edge" where
  "connect s t =
     \<lparr>eid = ''reactflow__edge-'' @ s @ ''-'' @ t, source = s, target = t,
      sourceHandle = None, targetHandle = None,
      etype = Some ''smoothstep'', animated = True\<rparr>"

text \<open>Two query nodes feeding one engine.\<close>

definition example_nodes :: "node list" where
  "example_nodes =
     [createNode ''n1'' ''userQuery'' (0, 0) JNull,
      createNode ''n2'' ''userQuery'' (200, 0) JNull,
      createNode ''n3'' ''llmEngine'' (100, 150) JNull,
      createNode ''n4'' ''output'' (100, 300) JNull]"

definition two_query_builder :: builder where
  "two_query_builder =
     \<lparr>nodes = example_nodes,
      edges = [connect ''n1'' ''n3'', connect ''n2'' ''n3'', connect ''n3'' ''n4''],
      workflowName = ''demo'', workflowDescription = [], editingWorkflow = None\<rparr>"

text \<open>A query node wired straight to the output, with no engine.\<close>

definition no_engine_builder :: builder where
  "no_engine_builder =
     \<lparr>nodes = [createNode ''n1'' ''userQuery'' (0, 0) JNull,
               createNode ''n4'' ''output'' (0, 150) JNull],
      edges = [connect ''n1'' ''n4''],
      workflowName = ''demo'', workflowDescription = [], editingWorkflow = None\<rparr>"

text \<open>A knowledge base and an engine feeding each other.\<close>

definition cyclic_builder :: builder where
  "cyclic_builder =
     \<lparr>nodes = [createNode ''n1'' ''userQuery'' (0, 0) JNull,
               createNode ''n2'' ''knowledgeBase'' (0, 150) JNull,
               createNode ''n3'' ''llmEngine'' (0, 300) JNull,
               createNode ''n4'' ''output'' (0, 450) JNull],
      edges = [connect ''n1'' ''n2'', connect ''n2'' ''n3'', connect ''n3'' ''n2'',
               connect ''n3'' ''n4''],
      workflowName = ''demo'', workflowDescription = [], editingWorkflow = None\<rparr>"


text \<open>A diamond: the query feeds a knowledge base and an engine, both feed the output. The
  nodes are listed in descending order of their ids.\<close>

definition diamond_workflow :: workflowData where
  "diamond_workflow =
     \<lparr>wd_name = ''demo'', wd_description = [],
      wd_nodes = [createNode ''n4'' ''output'' (0, 450) JNull,
                  createNode ''n3'' ''llmEngine'' (0, 300) JNull,
                  createNode ''n2'' ''knowledgeBase'' (0, 150) JNull,
                  createNode ''n1'' ''userQuery'' (0, 0) JNull],
      wd_edges = [connect ''n3'' ''n4'', connect ''n1'' ''n3'', connect ''n1'' ''n2'',
                  connect ''n2'' ''n4'']\<rparr>"

text \<open>A chat with one finished turn, and servers that answer or fail.\<close>

definition example_chat :: chat where
  "example_chat =
     \<lparr>messages = [\<lparr>role = ''user'', content = ''hi''\<rparr>,
                  \<lparr>role = ''assistant'', content = ''hello''\<rparr>],
      input = '' What is ML? '', loading = False, sessionId = Some ''s1'',
      chatSessions = [\<lparr>session_id = ''s1'', created_at = ''2024-01-01''\<rparr>,
                      \<lparr>session_id = ''s2'', created_at = ''2024-01-02''\<rparr>]\<rparr>"

definition post_ok :: "query_request \<Rightarrow> query_reply" where
  "post_ok req = QueryOk ''s1'' (''echo: '' @ query req)"

definition post_fails :: "query_request \<Rightarrow> query_reply" where
  "post_fails req = QueryFails None"

definition delete_accepts :: "string \<Rightarrow> bool" where
  "delete_accepts i = True"



text \<open>
  What the sidebar can do while a request is pending: nothing; or a click on the session
  \<open>s2\<close>, whose history then arrives.
\<close>

definition no_other_handler :: "chat \<Rightarrow> chat" where
  "no_other_handler st = st"

definition other_history :: "message list" where
  "other_history =
     [\<lparr>role = ''user'', content = ''Earlier question''\<rparr>,
      \<lparr>role = ''assistant'', content = ''Earlier answer''\<rparr>]"

definition open_other_session :: "chat \<Rightarrow> chat" where
  "open_other_session st =
     loadChatHistory_reply (Some other_history)
       (fst (handleSessionClick \<lparr>session_id = ''s2'', created_at = ''2024-01-02''\<rparr> st))"


section \<open>Auxiliary lemmas\<close>

lemma trim_demo: "trim ''demo'' = ''demo''"
  by (simp add: trim_def is_space_def)

lemma trim_example: "trim '' What is ML? '' = ''What is ML?''"
  by (simp add: trim_def is_space_def)

lemma get_member_nodeTypeMap:
  "js_or (get_member nodeTypeMap t) (JStr t) = JStr k \<longleftrightarrow>
     t = k \<and> get_member nodeTypeMap t \<noteq> JFun \<and> get_member nodeTypeMap t \<noteq> JObj []"
  by (auto simp: get_member_def get_prop_def js_or_def nodeTypeMap_def object_prototype_def)

lemma hasType_createNode: "hasType k (createNode i t p cb) = (t = k)"
  by (auto simp: hasType_def createNode_def get_prop_def Let_def get_member_nodeTypeMap)

lemma nid_createNode: "nid (createNode i k p cb) = i"
  by (simp add: createNode_def Let_def)

lemma count_kind_pos: "Suc 0 \<le> count_kind k nds \<longleftrightarrow> list_ex (hasType k) nds"
  by (induction nds) (auto simp: count_kind_def)

lemma count_kind_two: "2 \<le> count_kind k nds \<Longrightarrow> list_ex (hasType k) nds"
proof -
  assume "2 \<le> count_kind k nds"
  then have "Suc 0 \<le> count_kind k nds" by simp
  then show ?thesis by (simp only: count_kind_pos)
qed

lemma count_kind_zero: "count_kind k nds = 0 \<longleftrightarrow> \<not> list_ex (hasType k) nds"
  by (induction nds) (auto simp: count_kind_def)

lemma save_validation_None:
  "save_validation b = None \<longleftrightarrow>
     trim (workflowName b) \<noteq> [] \<and> hasUserQuery (nodes b) \<and> hasLLM (nodes b) \<and>
     hasOutput (nodes b)"
  by (simp add: save_validation_def)

lemma handleSaveWorkflow_accepted:
  "save_validation b = None \<Longrightarrow>
   handleSaveWorkflow b (server_stores i) =
     [Fetch (save_method b) (save_url b) (JSON_stringify (serialize b)),
      ToastSuccess (if editingWorkflow b \<noteq> None then ''Workflow updated successfully!''
                    else ''Workflow saved successfully!''),
      OnWorkflowReady (stored i (JSON_stringify (serialize b)))]"
  by (simp add: handleSaveWorkflow_def server_stores_def)

lemma cyclic_builder_cycle: "\<not> acyclic (edge_rel (edges cyclic_builder))"
proof -
  have "(''n2'', ''n3'') \<in> edge_rel (edges cyclic_builder)"
    "(''n3'', ''n2'') \<in> edge_rel (edges cyclic_builder)"
    by (simp_all add: edge_rel_def cyclic_builder_def connect_def)
  then have "(''n2'', ''n2'') \<in> (edge_rel (edges cyclic_builder))\<^sup>+"
    by (rule trancl_into_trancl2 [OF _ r_into_trancl])
  then show ?thesis by (auto simp: acyclic_def)
qed

lemma cyclic_builder_valid: "save_validation cyclic_builder = None"
  by (simp add: save_validation_def cyclic_builder_def hasType_createNode trim_demo
        hasUserQuery_def hasLLM_def hasOutput_def)

lemma in_degree_zero: "in_degree es v = 0 \<longleftrightarrow> (\<forall>e\<in>set es. snd e \<noteq> v)"
  by (auto simp: in_degree_def filter_empty_conv)

lemma dag_has_source:
  assumes "ns \<noteq> []" "\<forall>e\<in>set es. fst e \<in> set ns \<and> snd e \<in> set ns" "acyclic (set es)"
  shows "\<exists>z\<in>set ns. in_degree es z = 0"
proof -
  have "wf (set es)" using assms(3) by (simp add: finite_acyclic_wf)
  moreover obtain x where "x \<in> set ns" using assms(1) by (cases ns) auto
  ultimately obtain z where z: "z \<in> set ns" "\<And>y. (y, z) \<in> set es \<Longrightarrow> y \<notin> set ns"
    by (metis wfE_min)
  have "in_degree es z = 0"
    unfolding in_degree_zero
  proof
    fix e assume e: "e \<in> set es"
    show "snd e \<noteq> z"
    proof
      assume "snd e = z"
      then have "(fst e, z) \<in> set es" using e by (metis prod.collapse)
      then have "fst e \<notin> set ns" by (rule z(2))
      then show False using assms(2) e by blast
    qed
  qed
  then show ?thesis using z(1) by blast
qed

lemma kahn_dag:
  assumes "distinct ns" "\<forall>e\<in>set es. fst e \<in> set ns \<and> snd e \<in> set ns" "acyclic (set es)"
  shows "\<exists>order. kahn ns es = Inr order \<and> distinct order \<and> set order = set ns \<and>
          (\<forall>e\<in>set es. index_of (fst e) order < index_of (snd e) order) \<and>
          (\<forall>i<length order. \<forall>w\<in>set ns.
              w \<notin> set (take i order) \<and> (\<forall>u. (u, w) \<in> set es \<longrightarrow> u \<in> set (take i order))
              \<longrightarrow> order ! i \<le> w)"
  using assms
proof (induction ns es rule: kahn.induct)
  case (1 ns es)
  show ?case
  proof (cases "ns = []")
    case True
    then have "es = []" using "1.prems"(2) by (cases es) auto
    then show ?thesis using True by (simp add: kahn.simps)
  next
    case False
    from dag_has_source [OF False "1.prems"(2,3)]
    have "filter (\<lambda>v. in_degree es v = 0) ns \<noteq> []" by (simp add: filter_empty_conv)
    then obtain r rs where f: "filter (\<lambda>v. in_degree es v = 0) ns = r # rs"
      by (cases "filter (\<lambda>v. in_degree es v = 0) ns") auto
    define v where "v = least r rs"
    define ns' where "ns' = remove1 v ns"
    define es' where "es' = filter (\<lambda>e. fst e \<noteq> v) es"
    have "v \<in> set (filter (\<lambda>v. in_degree es v = 0) ns)"
      unfolding f v_def by (rule least_in)
    then have v_in: "v \<in> set ns" and v_deg: "in_degree es v = 0" by auto
    have v_no_pred: "\<And>e. e \<in> set es \<Longrightarrow> snd e \<noteq> v"
      using v_deg by (simp add: in_degree_zero)
    have v_least: "\<And>w. w \<in> set ns \<Longrightarrow> in_degree es w = 0 \<Longrightarrow> v \<le> w"
    proof -
      fix w assume "w \<in> set ns" "in_degree es w = 0"
      then have "w \<in> set (r # rs)" unfolding f [symmetric] by simp
      then show "v \<le> w" unfolding v_def by (rule least_le)
    qed
    have set_ns': "set ns' = set ns - {v}" and d': "distinct ns'"
      using "1.prems"(1) by (simp_all add: ns'_def)
    have e': "\<forall>e\<in>set es'. fst e \<in> set ns' \<and> snd e \<in> set ns'"
      using "1.prems"(2) v_no_pred by (auto simp: es'_def set_ns')
    have a': "acyclic (set es')"
      by (rule acyclic_subset [OF "1.prems"(3)]) (auto simp: es'_def)
    from "1.IH" [OF False f, folded v_def, folded ns'_def es'_def, OF d' e' a']
    obtain order' where o: "kahn ns' es' = Inr order'" "distinct order'" "set order' = set ns'"
      "\<forall>e\<in>set es'. index_of (fst e) order' < index_of (snd e) order'"
      "\<forall>i<length order'. \<forall>w\<in>set ns'.
          w \<notin> set (take i order') \<and> (\<forall>u. (u, w) \<in> set es' \<longrightarrow> u \<in> set (take i order'))
          \<longrightarrow> order' ! i \<le> w"
      by blast
    have k: "kahn ns es = Inr (v # order')"
      using False f o(1) by (subst kahn.simps) (simp add: v_def ns'_def es'_def)
    have p1: "distinct (v # order')" using o(2,3) set_ns' by simp
    have p2: "set (v # order') = set ns" using o(3) set_ns' v_in by auto
    have p3: "\<forall>e\<in>set es. index_of (fst e) (v # order') < index_of (snd e) (v # order')"
    proof
      fix e assume e: "e \<in> set es"
      show "index_of (fst e) (v # order') < index_of (snd e) (v # order')"
      proof (cases "fst e = v")
        case True
        then show ?thesis using v_no_pred [OF e] by simp
      next
        case False
        then have "e \<in> set es'" using e by (simp add: es'_def)
        then show ?thesis using o(4) False v_no_pred [OF e] by simp
      qed
    qed
    have p4: "\<forall>i<length (v # order'). \<forall>w\<in>set ns.
          w \<notin> set (take i (v # order')) \<and>
          (\<forall>u. (u, w) \<in> set es \<longrightarrow> u \<in> set (take i (v # order')))
          \<longrightarrow> (v # order') ! i \<le> w"
    proof (intro allI impI ballI)
      fix i w
      assume i: "i < length (v # order')" and w: "w \<in> set ns"
        and h: "w \<notin> set (take i (v # order')) \<and>
                (\<forall>u. (u, w) \<in> set es \<longrightarrow> u \<in> set (take i (v # order')))"
      show "(v # order') ! i \<le> w"
      proof (cases i)
        case 0
        then have "\<forall>e\<in>set es. snd e \<noteq> w" using h by auto
        then have "in_degree es w = 0" by (simp add: in_degree_zero)
        then show ?thesis using 0 v_least [OF w] by simp
      next
        case (Suc j)
        then have j: "j < length order'" using i by simp
        have wv: "w \<noteq> v" and wj: "w \<notin> set (take j order')" using h Suc by auto
        have w': "w \<in> set ns'" using w wv by (simp add: set_ns')
        have "\<forall>u. (u, w) \<in> set es' \<longrightarrow> u \<in> set (take j order')"
          using h Suc by (auto simp: es'_def)
        then have "order' ! j \<le> w" using o(5) j w' wj by blast
        then show ?thesis using Suc by simp
      qed
    qed
    show ?thesis using k p1 p2 p3 p4 by blast
  qed
qed

lemma kahn_set_eq:
  "distinct ns \<Longrightarrow> distinct ns' \<Longrightarrow> set ns = set ns' \<Longrightarrow> set es = set es'
   \<Longrightarrow> kahn ns es = kahn ns' es'"
proof (induction ns es arbitrary: ns' es' rule: kahn.induct)
  case (1 ns es)
  have deg: "\<And>v. (in_degree es v = 0) = (in_degree es' v = 0)"
    using "1.prems"(4) by (simp add: in_degree_zero)
  show ?case
  proof (cases "ns = []")
    case True
    then have "ns' = []" using "1.prems"(3) by simp
    then show ?thesis using True by (simp add: kahn.simps)
  next
    case False
    then have False': "ns' \<noteq> []" using "1.prems"(3) by auto
    have sets: "set (filter (\<lambda>v. in_degree es v = 0) ns) = set (filter (\<lambda>v. in_degree es' v = 0) ns')"
      using "1.prems"(3) deg by auto
    show ?thesis
    proof (cases "filter (\<lambda>v. in_degree es v = 0) ns")
      case Nil
      then have "filter (\<lambda>v. in_degree es' v = 0) ns' = []" using sets by simp
      then show ?thesis using Nil False False'
        by (subst kahn.simps, subst (2) kahn.simps) simp
    next
      case (Cons r rs)
      then obtain r' rs' where f': "filter (\<lambda>v. in_degree es' v = 0) ns' = r' # rs'"
        using sets by (cases "filter (\<lambda>v. in_degree es' v = 0) ns'") auto
      have l: "least r rs = least r' rs'"
        using sets unfolding Cons f' least_Min by simp
      have "kahn (remove1 (least r rs) ns) (filter (\<lambda>e. fst e \<noteq> least r rs) es)
            = kahn (remove1 (least r rs) ns') (filter (\<lambda>e. fst e \<noteq> least r rs) es')"
        by (rule "1.IH" [OF False Cons]) (use "1.prems" in auto)
      then show ?thesis using Cons f' False False' l
        by (subst kahn.simps, subst (2) kahn.simps) (simp cong: sum.case_cong)
    qed
  qed
qed

lemma edge_pairs: "set (map (\<lambda>e. (source e, target e)) es) = edge_rel es"
  by (simp add: edge_rel_def)

































lemma createNode_topK_default:
  "get_prop (ndata (createNode gid ''knowledgeBase'' pos cb)) ''topK'' = JNum 5 \<and>
   KnowledgeBaseNode_topK (ndata (createNode gid ''knowledgeBase'' pos cb)) = JNum 5"
  by (simp add: createNode_def get_prop_def KnowledgeBaseNode_topK_def js_or_def Let_def)


section \<open>Validation before saving\<close>

text \<open>
  C1, as amended. The validation in \<open>handleSaveWorkflow\<close> accepts only workflows with
  at least one UserQuery node and at least one Output node, and it does not count
  duplicates: every workflow with two or more UserQuery nodes whose other checks are
  satisfied (a name that is not blank, an LLMEngine node, an Output node) passes the
  validation, the save request is sent, and a server that stores it makes the handler
  call \<open>onWorkflowReady\<close>.
\<close>

theorem save_validation_at_least_one:
  "(save_validation b = None \<longrightarrow>
      1 \<le> count_kind ''userQuery'' (nodes b) \<and> 1 \<le> count_kind ''output'' (nodes b)) \<and>
   (2 \<le> count_kind ''userQuery'' (nodes b) \<and> trim (workflowName b) \<noteq> [] \<and>
    1 \<le> count_kind ''llmEngine'' (nodes b) \<and> 1 \<le> count_kind ''output'' (nodes b) \<longrightarrow>
      save_validation b = None \<and>
      handleSaveWorkflow b (server_stores i) =
        [Fetch (save_method b) (save_url b) (JSON_stringify (serialize b)),
         ToastSuccess (if editingWorkflow b \<noteq> None then ''Workflow updated successfully!''
                       else ''Workflow saved successfully!''),
         OnWorkflowReady (stored i (JSON_stringify (serialize b)))])"
proof (intro conjI impI)
  assume "save_validation b = None"
  then show "1 \<le> count_kind ''userQuery'' (nodes b)" "1 \<le> count_kind ''output'' (nodes b)"
    by (simp_all add: save_validation_None count_kind_pos hasUserQuery_def hasOutput_def)
next
  assume a: "2 \<le> count_kind ''userQuery'' (nodes b) \<and> trim (workflowName b) \<noteq> [] \<and>
    1 \<le> count_kind ''llmEngine'' (nodes b) \<and> 1 \<le> count_kind ''output'' (nodes b)"
  then have "hasUserQuery (nodes b)" by (simp add: hasUserQuery_def count_kind_two)
  with a show v: "save_validation b = None"
    by (simp add: save_validation_None count_kind_pos hasLLM_def hasOutput_def)
  show "handleSaveWorkflow b (server_stores i) =
        [Fetch (save_method b) (save_url b) (JSON_stringify (serialize b)),
         ToastSuccess (if editingWorkflow b \<noteq> None then ''Workflow updated successfully!''
                       else ''Workflow saved successfully!''),
         OnWorkflowReady (stored i (JSON_stringify (serialize b)))]"
    by (rule handleSaveWorkflow_accepted [OF v])
qed

text \<open>
  The claim as stated fails: a workflow with two UserQuery nodes, one LLMEngine node and
  one Output node is not rejected; the handler sends it and reaches \<open>onWorkflowReady\<close>.
\<close>

theorem two_user_queries_accepted:
  "count_kind ''userQuery'' (nodes two_query_builder) = 2 \<and>
   count_kind ''llmEngine'' (nodes two_query_builder) = 1 \<and>
   count_kind ''output'' (nodes two_query_builder) = 1 \<and>
   save_validation two_query_builder = None \<and>
   handleSaveWorkflow two_query_builder (server_stores ''1'') =
     [Fetch ''POST'' ''http://localhost:8000/api/workflows/''
        (JSON_stringify (serialize two_query_builder)),
      ToastSuccess ''Workflow saved successfully!'',
      OnWorkflowReady (stored ''1'' (JSON_stringify (serialize two_query_builder)))]"
proof -
  have v: "save_validation two_query_builder = None"
    by (simp add: save_validation_def two_query_builder_def example_nodes_def
        hasType_createNode trim_demo hasUserQuery_def hasLLM_def hasOutput_def)
  have c: "count_kind ''userQuery'' (nodes two_query_builder) = 2"
    "count_kind ''llmEngine'' (nodes two_query_builder) = 1"
    "count_kind ''output'' (nodes two_query_builder) = 1"
    by (simp_all add: count_kind_def two_query_builder_def example_nodes_def hasType_createNode)
  have m: "save_method two_query_builder = ''POST''"
    "save_url two_query_builder = ''http://localhost:8000/api/workflows/''"
    "editingWorkflow two_query_builder = None"
    by (simp_all add: save_method_def save_url_def two_query_builder_def)
  show ?thesis using v c handleSaveWorkflow_accepted [OF v, of "''1''"] by (simp add: m)
qed

text \<open>The amended statement at the workflow with two UserQuery nodes.\<close>

theorem save_validation_at_least_one_witness:
  "save_validation two_query_builder = None \<and>
   1 \<le> count_kind ''userQuery'' (nodes two_query_builder) \<and>
   2 \<le> count_kind ''userQuery'' (nodes two_query_builder) \<and>
   trim (workflowName two_query_builder) \<noteq> [] \<and>
   1 \<le> count_kind ''llmEngine'' (nodes two_query_builder) \<and>
   1 \<le> count_kind ''output'' (nodes two_query_builder) \<and>
   hd (handleSaveWorkflow two_query_builder (server_stores ''1'')) =
     Fetch ''POST'' ''http://localhost:8000/api/workflows/''
        (JSON_stringify (serialize two_query_builder))"
proof -
  have c: "count_kind ''userQuery'' (nodes two_query_builder) = 2"
    "count_kind ''llmEngine'' (nodes two_query_builder) = 1"
    "count_kind ''output'' (nodes two_query_builder) = 1"
    by (simp_all add: count_kind_def two_query_builder_def example_nodes_def hasType_createNode)
  have t: "trim (workflowName two_query_builder) \<noteq> []"
    by (simp add: two_query_builder_def trim_demo)
  have m: "save_method two_query_builder = ''POST''"
    "save_url two_query_builder = ''http://localhost:8000/api/workflows/''"
    by (simp_all add: save_method_def save_url_def two_query_builder_def)
  show ?thesis
    using save_validation_at_least_one [of two_query_builder "''1''"] c t by (simp add: m)
qed

text \<open>
  C2, as amended. The validation requires an LLMEngine node: every workflow without one
  (so also one with exactly one UserQuery node and exactly one Output node) is rejected at
  validation time; the handler shows one error toast and sends no request, whatever the
  server would answer.
\<close>

theorem missing_engine_rejected:
  "count_kind ''llmEngine'' (nodes b) = 0 \<Longrightarrow>
   save_validation b \<noteq> None \<and>
   (\<exists>msg. handleSaveWorkflow b fetch = [ToastError msg])"
  by (auto simp: handleSaveWorkflow_def save_validation_def count_kind_zero hasLLM_def)

text \<open>
  The claim as stated fails: the workflow of one UserQuery node and one Output node with
  no LLMEngine node is refused by the validation.
\<close>

theorem no_engine_rejected_at_validation:
  "count_kind ''userQuery'' (nodes no_engine_builder) = 1 \<and>
   count_kind ''output'' (nodes no_engine_builder) = 1 \<and>
   count_kind ''llmEngine'' (nodes no_engine_builder) = 0 \<and>
   save_validation no_engine_builder =
     Some ''Workflow must contain User Query, LLM Engine, and Output components'' \<and>
   handleSaveWorkflow no_engine_builder (server_stores ''1'') =
     [ToastError ''Workflow must contain User Query, LLM Engine, and Output components'']"
proof -
  have c: "count_kind ''userQuery'' (nodes no_engine_builder) = 1"
    "count_kind ''output'' (nodes no_engine_builder) = 1"
    "count_kind ''llmEngine'' (nodes no_engine_builder) = 0"
    by (simp_all add: count_kind_def no_engine_builder_def hasType_createNode)
  have v: "save_validation no_engine_builder =
     Some ''Workflow must contain User Query, LLM Engine, and Output components''"
    by (simp add: save_validation_def no_engine_builder_def hasType_createNode trim_demo
        hasUserQuery_def hasLLM_def hasOutput_def)
  show ?thesis using c v by (simp add: handleSaveWorkflow_def)
qed

text \<open>The amended statement at that workflow.\<close>

theorem missing_engine_rejected_witness:
  "count_kind ''llmEngine'' (nodes no_engine_builder) = 0 \<and>
   save_validation no_engine_builder \<noteq> None \<and>
   (\<exists>msg. handleSaveWorkflow no_engine_builder (server_stores ''1'') = [ToastError msg])"
proof -
  have c: "count_kind ''llmEngine'' (nodes no_engine_builder) = 0"
    by (simp add: count_kind_def no_engine_builder_def hasType_createNode)
  show ?thesis using missing_engine_rejected [OF c, of "server_stores ''1''"] c by simp
qed

text \<open>
  C3, as amended. The validation in \<open>handleSaveWorkflow\<close> never looks at the edges: for
  a workflow whose edges contain a cycle its verdict is the verdict on the same nodes with
  no edge at all, and when the name and node checks pass the save request is sent and a
  server that stores it makes the handler call \<open>onWorkflowReady\<close>. No cycle error is
  reported by these sources.
\<close>

theorem save_validation_ignores_edges:
  assumes "\<not> acyclic (edge_rel (edges b))"
  shows "save_validation b = save_validation (b\<lparr>edges := []\<rparr>) \<and>
    (trim (workflowName b) \<noteq> [] \<and> hasUserQuery (nodes b) \<and> hasLLM (nodes b) \<and>
     hasOutput (nodes b) \<longrightarrow>
       handleSaveWorkflow b (server_stores i) =
         [Fetch (save_method b) (save_url b) (JSON_stringify (serialize b)),
          ToastSuccess (if editingWorkflow b \<noteq> None then ''Workflow updated successfully!''
                        else ''Workflow saved successfully!''),
          OnWorkflowReady (stored i (JSON_stringify (serialize b)))])"
proof (intro conjI impI)
  show "save_validation b = save_validation (b\<lparr>edges := []\<rparr>)"
    by (simp add: save_validation_def)
next
  assume "trim (workflowName b) \<noteq> [] \<and> hasUserQuery (nodes b) \<and> hasLLM (nodes b) \<and>
     hasOutput (nodes b)"
  then have "save_validation b = None" by (simp add: save_validation_None)
  then show "handleSaveWorkflow b (server_stores i) =
         [Fetch (save_method b) (save_url b) (JSON_stringify (serialize b)),
          ToastSuccess (if editingWorkflow b \<noteq> None then ''Workflow updated successfully!''
                        else ''Workflow saved successfully!''),
          OnWorkflowReady (stored i (JSON_stringify (serialize b)))]"
    by (rule handleSaveWorkflow_accepted)
qed

text \<open>
  The claim as stated fails: the workflow in which the knowledge base and the engine feed
  each other passes the validation and is handed on for chatting.
\<close>

theorem cyclic_workflow_accepted:
  "\<not> acyclic (edge_rel (edges cyclic_builder)) \<and>
   save_validation cyclic_builder = None \<and>
   handleSaveWorkflow cyclic_builder (server_stores ''1'') =
     [Fetch ''POST'' ''http://localhost:8000/api/workflows/''
        (JSON_stringify (serialize cyclic_builder)),
      ToastSuccess ''Workflow saved successfully!'',
      OnWorkflowReady (stored ''1'' (JSON_stringify (serialize cyclic_builder)))]"
proof -
  have m: "save_method cyclic_builder = ''POST''"
    "save_url cyclic_builder = ''http://localhost:8000/api/workflows/''"
    "editingWorkflow cyclic_builder = None"
    by (simp_all add: save_method_def save_url_def cyclic_builder_def)
  show ?thesis
    using cyclic_builder_cycle cyclic_builder_valid
      handleSaveWorkflow_accepted [OF cyclic_builder_valid, of "''1''"]
    by (simp add: m)
qed

text \<open>The amended statement at the cyclic workflow.\<close>

theorem save_validation_ignores_edges_witness:
  "\<not> acyclic (edge_rel (edges cyclic_builder)) \<and>
   save_validation cyclic_builder = save_validation (cyclic_builder\<lparr>edges := []\<rparr>) \<and>
   last (handleSaveWorkflow cyclic_builder (server_stores ''1'')) =
     OnWorkflowReady (stored ''1'' (JSON_stringify (serialize cyclic_builder)))"
proof -
  have v: "trim (workflowName cyclic_builder) \<noteq> [] \<and> hasUserQuery (nodes cyclic_builder) \<and>
     hasLLM (nodes cyclic_builder) \<and> hasOutput (nodes cyclic_builder)"
    using cyclic_builder_valid by (simp add: save_validation_None)
  show ?thesis
    using save_validation_ignores_edges [OF cyclic_builder_cycle, of "''1''"] v
      cyclic_builder_cycle
    by simp
qed


section \<open>Defaults of new nodes\<close>

text \<open>
  C4, as amended. For every newly created LLMEngine node (\<open>createNode\<close> called with
  \<open>llmEngine\<close>, before any edit) the \<open>llmProvider\<close> field is \<open>gemini\<close>, and this is
  what the node's provider select shows.
\<close>

theorem createNode_llmProvider_gemini:
  "get_prop (ndata (createNode gid ''llmEngine'' pos cb)) ''llmProvider'' = JStr ''gemini'' \<and>
   LLMEngineNode_llmProvider (ndata (createNode gid ''llmEngine'' pos cb)) = JStr ''gemini''"
  by (simp add: createNode_def get_prop_def LLMEngineNode_llmProvider_def js_or_def Let_def)

text \<open>The claim as stated fails: the provider of a new LLMEngine node is not \<open>openai\<close>.\<close>

theorem createNode_llmProvider_not_openai:
  "get_prop (ndata (createNode ''node_1'' ''llmEngine'' (0, 0) JNull)) ''llmProvider''
     \<noteq> JStr ''openai''"
  by (simp add: createNode_def get_prop_def Let_def)

text \<open>The amended statement at one new node.\<close>

theorem createNode_llmProvider_gemini_witness:
  "get_prop (ndata (createNode ''node_1'' ''llmEngine'' (0, 0) JNull)) ''llmProvider''
     = JStr ''gemini''"
  using createNode_llmProvider_gemini [of "''node_1''" "(0, 0)" JNull] by simp


text \<open>
  C5 at the value 50. A new KnowledgeBase node has \<open>topK\<close> 5, but a value entered in the
  Top K field is not brought into the range [1,20] that the input declares with
  \<open>min\<close> and \<open>max\<close>: 50 typed into the field of a new node is stored as 50, by the
  node's own handler and by the configuration panel's.
\<close>

theorem topK_fifty_stored:
  "map (\<lambda>m. get_prop (ndata m) ''topK'')
     (handleNodeUpdate (onDrop ''kb1'' ''knowledgeBase'' (0, 0) []) ''kb1''
        (update_data (UpdTopK (Some 50)))) = [JNum 50] \<and>
   get_prop
     (handleChange (ndata (createNode ''kb1'' ''knowledgeBase'' (0, 0) JNull)) ''topK'' (JNum 50))
     ''topK'' = JNum 50 \<and>
   \<not> (1 \<le> (50::int) \<and> (50::int) \<le> 20)"
  by (simp add: createNode_def get_prop_def js_or_def Let_def onDrop_def
      handleNodeUpdate_def KnowledgeBaseNode_topK_onChange_def handleChange_def)


section \<open>Chat turns and sessions\<close>

text \<open>
  C6 at a turn during which the sidebar is used. The chat shows the session \<open>s1\<close> with
  two entries. While the request of a turn is pending, a click on the session \<open>s2\<close>
  brings that session's two entries on screen; the request then fails, and the handler
  removes the last entry on screen, the assistant's entry of \<open>s2\<close>, not the user entry
  it had added: the list is neither the one before the turn nor the history of \<open>s2\<close>.
  With a click on New Chat in place of the session, a successful request appends the
  assistant entry alone.
\<close>

theorem handleSend_interleaved_turn:
  "messages example_chat =
     [\<lparr>role = ''user'', content = ''hi''\<rparr>, \<lparr>role = ''assistant'', content = ''hello''\<rparr>] \<and>
   messages (fst (handleSend ''wf1'' example_chat post_fails open_other_session)) =
     [\<lparr>role = ''user'', content = ''Earlier question''\<rparr>] \<and>
   sessionId (fst (handleSend ''wf1'' example_chat post_fails open_other_session)) = Some ''s2'' \<and>
   messages (fst (handleSend ''wf1'' example_chat post_ok handleNewChat)) =
     [\<lparr>role = ''assistant'', content = ''echo: What is ML?''\<rparr>] \<and>
   snd (handleSend ''wf1'' example_chat post_ok handleNewChat) =
     [PostQuery \<lparr>query = ''What is ML?'', workflow_id = ''wf1'', req_session_id = Some ''s1''\<rparr>,
      GetSessions ''wf1'', GetHistory ''s1'']"
proof -
  have g: "trim (input example_chat) = ''What is ML?''" "\<not> loading example_chat"
    by (simp_all add: example_chat_def trim_example)
  show ?thesis
    by (simp add: handleSend_def Let_def g)
      (simp add: example_chat_def post_fails_def post_ok_def open_other_session_def
        loadChatHistory_reply_def handleSessionClick_def handleNewChat_def other_history_def
        sessionId_effect_def)
qed

text \<open>
  When no other handler runs between the submit and the answer, the turn is atomic: a
  successful request appends the user entry and the assistant entry, in this order, and
  sets the session id; a failed one leaves the message list and the session id as they
  were before the turn.
\<close>

lemma handleSend_uninterrupted:
  assumes "trim (input st) \<noteq> []" and "\<not> loading st"
  shows
    "(post \<lparr>query = trim (input st), workflow_id = wid, req_session_id = sessionId st\<rparr>
        = QueryOk sid resp \<longrightarrow>
        messages (fst (handleSend wid st post no_other_handler)) =
          messages st @ [\<lparr>role = ''user'', content = trim (input st)\<rparr>,
                         \<lparr>role = ''assistant'', content = resp\<rparr>] \<and>
        sessionId (fst (handleSend wid st post no_other_handler)) = Some sid) \<and>
     (post \<lparr>query = trim (input st), workflow_id = wid, req_session_id = sessionId st\<rparr>
        = QueryFails detail \<longrightarrow>
        messages (fst (handleSend wid st post no_other_handler)) = messages st \<and>
        sessionId (fst (handleSend wid st post no_other_handler)) = sessionId st)"
  using assms by (simp add: handleSend_def Let_def no_other_handler_def)

text \<open>
  C9. Sending is guarded: when the trimmed input is empty or a request is in flight
  (\<open>loading\<close>), the handler sends no request (it has no effect at all) and leaves the
  whole chat state as it is, whatever the other handlers would do.
\<close>

theorem handleSend_guard:
  "trim (input st) = [] \<or> loading st \<Longrightarrow> handleSend wid st post during = (st, [])"
  by (simp add: handleSend_def)

text \<open>A blank input, and a submit while a request is in flight (with a click on New Chat
  standing by).\<close>

theorem handleSend_guard_witness:
  "handleSend ''wf1'' (example_chat\<lparr>input := ''   ''\<rparr>) post_ok handleNewChat
     = (example_chat\<lparr>input := ''   ''\<rparr>, []) \<and>
   handleSend ''wf1'' (example_chat\<lparr>loading := True\<rparr>) post_ok handleNewChat
     = (example_chat\<lparr>loading := True\<rparr>, [])"
proof -
  have b: "trim (input (example_chat\<lparr>input := ''   ''\<rparr>)) = []"
    by (simp add: trim_def is_space_def)
  show ?thesis
    using handleSend_guard [of "example_chat\<lparr>input := ''   ''\<rparr>" "''wf1''" post_ok handleNewChat]
      handleSend_guard [of "example_chat\<lparr>loading := True\<rparr>" "''wf1''" post_ok handleNewChat] b
    by simp
qed

text \<open>
  C10. After a successful deletion of session \<open>s\<close> the session list holds no session with
  the id of \<open>s\<close>; when \<open>s\<close> was the active session the active id is reset to \<open>null\<close> and
  the message list to empty; otherwise the active id and the message list are unchanged.
  The sessions with other ids stay in the list, in their order.
\<close>

theorem handleDeleteSession_success:
  assumes "delete_ok (session_id s)"
  shows
    "(\<forall>x\<in>set (chatSessions (fst (handleDeleteSession st s delete_ok))).
        session_id x \<noteq> session_id s) \<and>
     chatSessions (fst (handleDeleteSession st s delete_ok)) =
       filter (\<lambda>x. session_id x \<noteq> session_id s) (chatSessions st) \<and>
     (sessionId st = Some (session_id s) \<longrightarrow>
        sessionId (fst (handleDeleteSession st s delete_ok)) = None \<and>
        messages (fst (handleDeleteSession st s delete_ok)) = []) \<and>
     (sessionId st \<noteq> Some (session_id s) \<longrightarrow>
        sessionId (fst (handleDeleteSession st s delete_ok)) = sessionId st \<and>
        messages (fst (handleDeleteSession st s delete_ok)) = messages st)"
  using assms by (simp add: handleDeleteSession_def Let_def)

text \<open>Deleting the active session, and deleting another one.\<close>

theorem handleDeleteSession_success_witness:
  "map session_id (chatSessions (fst (handleDeleteSession example_chat
       \<lparr>session_id = ''s1'', created_at = ''2024-01-01''\<rparr> delete_accepts))) = [''s2''] \<and>
   sessionId (fst (handleDeleteSession example_chat
       \<lparr>session_id = ''s1'', created_at = ''2024-01-01''\<rparr> delete_accepts)) = None \<and>
   messages (fst (handleDeleteSession example_chat
       \<lparr>session_id = ''s1'', created_at = ''2024-01-01''\<rparr> delete_accepts)) = [] \<and>
   sessionId (fst (handleDeleteSession example_chat
       \<lparr>session_id = ''s2'', created_at = ''2024-01-02''\<rparr> delete_accepts)) = Some ''s1'' \<and>
   messages (fst (handleDeleteSession example_chat
       \<lparr>session_id = ''s2'', created_at = ''2024-01-02''\<rparr> delete_accepts))
     = messages example_chat"
proof -
  let ?s1 = "\<lparr>session_id = ''s1'', created_at = ''2024-01-01''\<rparr>"
  let ?s2 = "\<lparr>session_id = ''s2'', created_at = ''2024-01-02''\<rparr>"
  have d1: "delete_accepts (session_id ?s1)" and d2: "delete_accepts (session_id ?s2)"
    by (simp_all add: delete_accepts_def)
  have a1: "sessionId example_chat = Some (session_id ?s1)"
    and a2: "sessionId example_chat \<noteq> Some (session_id ?s2)"
    and a: "sessionId example_chat = Some ''s1''"
    by (simp_all add: example_chat_def)
  note t1 = handleDeleteSession_success
      [where delete_ok = delete_accepts and st = example_chat and s = ?s1, OF d1]
  note t2 = handleDeleteSession_success
      [where delete_ok = delete_accepts and st = example_chat and s = ?s2, OF d2]
  have c: "chatSessions (fst (handleDeleteSession example_chat ?s1 delete_accepts)) =
       filter (\<lambda>x. session_id x \<noteq> session_id ?s1) (chatSessions example_chat)"
    using t1 by (rule conjunct2 [THEN conjunct1])
  have c': "map session_id (chatSessions (fst (handleDeleteSession example_chat ?s1
       delete_accepts))) = [''s2'']"
    unfolding c by (simp add: example_chat_def)
  have r1: "sessionId (fst (handleDeleteSession example_chat ?s1 delete_accepts)) = None \<and>
        messages (fst (handleDeleteSession example_chat ?s1 delete_accepts)) = []"
    using t1 a1 by blast
  have r2: "sessionId (fst (handleDeleteSession example_chat ?s2 delete_accepts))
          = sessionId example_chat \<and>
        messages (fst (handleDeleteSession example_chat ?s2 delete_accepts))
          = messages example_chat"
    using t2 a2 by blast
  show ?thesis using c' r1 r2 unfolding a by blast
qed


section \<open>Saving and loading a workflow\<close>




section \<open>The compiled order\<close>

text \<open>
  C8. For a workflow whose graph is a DAG (distinct node ids, every edge between nodes of
  the workflow, no cycle) the compiler returns a plan whose order lists every node exactly
  once; for every edge the source precedes the target; at every position the node emitted
  is the smallest id among the nodes not yet emitted whose predecessors have all been
  emitted (the tie-break); and compiling any listing of the same graph (the same node ids,
  the same edge relation) gives the identical order.
\<close>

theorem compile_dag_order:
  assumes d: "distinct (map nid (wd_nodes w))"
    and e: "\<forall>e\<in>set (wd_edges w).
              source e \<in> set (map nid (wd_nodes w)) \<and> target e \<in> set (map nid (wd_nodes w))"
    and a: "acyclic (edge_rel (wd_edges w))"
  shows "\<exists>plan. compile w = Inr plan \<and>
      distinct (plan_order plan) \<and>
      set (plan_order plan) = set (map nid (wd_nodes w)) \<and>
      (\<forall>e\<in>set (wd_edges w).
          index_of (source e) (plan_order plan) < index_of (target e) (plan_order plan)) \<and>
      (\<forall>i<length (plan_order plan). \<forall>v\<in>set (map nid (wd_nodes w)).
          v \<notin> set (take i (plan_order plan)) \<and>
          (\<forall>e\<in>set (wd_edges w). target e = v \<longrightarrow> source e \<in> set (take i (plan_order plan)))
          \<longrightarrow> plan_order plan ! i \<le> v) \<and>
      (\<forall>w'::workflowData. distinct (map nid (wd_nodes w')) \<and>
            set (map nid (wd_nodes w')) = set (map nid (wd_nodes w)) \<and>
            edge_rel (wd_edges w') = edge_rel (wd_edges w)
            \<longrightarrow> (\<exists>plan'. compile w' = Inr plan' \<and> plan_order plan' = plan_order plan))"
proof -
  let ?ns = "map nid (wd_nodes w)"
  let ?es = "map (\<lambda>e. (source e, target e)) (wd_edges w)"
  have e': "\<forall>p\<in>set ?es. fst p \<in> set ?ns \<and> snd p \<in> set ?ns" using e by auto
  have a': "acyclic (set ?es)" using a by (simp only: edge_pairs)
  from kahn_dag [OF d e' a']
  obtain order where o: "kahn ?ns ?es = Inr order" "distinct order" "set order = set ?ns"
    "\<forall>p\<in>set ?es. index_of (fst p) order < index_of (snd p) order"
    "\<forall>i<length order. \<forall>v\<in>set ?ns.
        v \<notin> set (take i order) \<and> (\<forall>u. (u, v) \<in> set ?es \<longrightarrow> u \<in> set (take i order))
        \<longrightarrow> order ! i \<le> v"
    by blast
  define plan where "plan =
     \<lparr>plan_order = order,
      plan_preds = map (\<lambda>v. (v, map source (filter (\<lambda>e. target e = v) (wd_edges w)))) order\<rparr>"
  have c: "compile w = Inr plan" using o(1) by (simp add: compile_def plan_def)
  have po: "plan_order plan = order" by (simp add: plan_def)
  have q3: "\<forall>e\<in>set (wd_edges w). index_of (source e) order < index_of (target e) order"
    using o(4) by simp
  have q4: "\<forall>i<length order. \<forall>v\<in>set ?ns.
          v \<notin> set (take i order) \<and>
          (\<forall>e\<in>set (wd_edges w). target e = v \<longrightarrow> source e \<in> set (take i order))
          \<longrightarrow> order ! i \<le> v"
  proof (intro allI impI ballI)
    fix i v
    assume i: "i < length order" and v: "v \<in> set ?ns"
      and h: "v \<notin> set (take i order) \<and>
          (\<forall>e\<in>set (wd_edges w). target e = v \<longrightarrow> source e \<in> set (take i order))"
    have "\<forall>u. (u, v) \<in> set ?es \<longrightarrow> u \<in> set (take i order)" using h by auto
    then show "order ! i \<le> v" using o(5) i v h by blast
  qed
  have q5: "\<forall>w'::workflowData. distinct (map nid (wd_nodes w')) \<and>
            set (map nid (wd_nodes w')) = set ?ns \<and>
            edge_rel (wd_edges w') = edge_rel (wd_edges w)
            \<longrightarrow> (\<exists>plan'. compile w' = Inr plan' \<and> plan_order plan' = order)"
  proof (intro allI impI)
    fix w' :: workflowData
    assume h: "distinct (map nid (wd_nodes w')) \<and>
            set (map nid (wd_nodes w')) = set ?ns \<and>
            edge_rel (wd_edges w') = edge_rel (wd_edges w)"
    have "kahn (map nid (wd_nodes w')) (map (\<lambda>e. (source e, target e)) (wd_edges w'))
          = kahn ?ns ?es"
      by (rule kahn_set_eq) (use h d in \<open>simp_all only: edge_pairs\<close>)
    then show "\<exists>plan'. compile w' = Inr plan' \<and> plan_order plan' = order"
      using o(1) by (simp add: compile_def)
  qed
  show ?thesis
    using c o(2,3) q3 q4 q5 unfolding po [symmetric] by blast
qed

text \<open>The diamond: the knowledge base \<open>n2\<close> is emitted before the engine \<open>n3\<close>.\<close>

theorem compile_dag_order_witness:
  "distinct (map nid (wd_nodes diamond_workflow)) \<and>
   acyclic (edge_rel (wd_edges diamond_workflow)) \<and>
   compile diamond_workflow =
     Inr \<lparr>plan_order = [''n1'', ''n2'', ''n3'', ''n4''],
          plan_preds = [(''n1'', []), (''n2'', [''n1'']), (''n3'', [''n1'']),
                        (''n4'', [''n3'', ''n2''])]\<rparr>"
proof -
  have d: "distinct (map nid (wd_nodes diamond_workflow))"
    by (simp add: diamond_workflow_def nid_createNode)
  have e: "\<forall>e\<in>set (wd_edges diamond_workflow).
      source e \<in> set (map nid (wd_nodes diamond_workflow)) \<and>
      target e \<in> set (map nid (wd_nodes diamond_workflow))"
    by (simp add: diamond_workflow_def nid_createNode connect_def)
  have a: "acyclic (edge_rel (wd_edges diamond_workflow))"
    by (simp add: edge_rel_def diamond_workflow_def connect_def acyclic_insert rtrancl_insert
        wf_acyclic)
  have c: "compile diamond_workflow =
     Inr \<lparr>plan_order = [''n1'', ''n2'', ''n3'', ''n4''],
          plan_preds = [(''n1'', []), (''n2'', [''n1'']), (''n3'', [''n1'']),
                        (''n4'', [''n3'', ''n2''])]\<rparr>"
    by (simp add: compile_def diamond_workflow_def nid_createNode connect_def kahn.simps
        in_degree_def least_def)
  from compile_dag_order [OF d e a]
  obtain plan where "compile diamond_workflow = Inr plan" by blast
  with d a c show ?thesis by simp
qed

end
